theory Spec2Isabelle
  imports
    Complex_Main
    "HOL-Library.Char_ord"
    "HOL-Library.List_Lexorder"
    "HOL-Library.Product_Lexorder"
begin

section \<open>Numbers\<close>

text \<open>
  The script computes with Python floats. A float is modelled as an exact real number or
  the value \<open>NaN\<close>, which pandas returns for the mean of an empty selection and which a
  predictor or a loaded table cell may hold. Rounding, overflow and the infinities are
  outside the model. Every comparison with \<open>NaN\<close> is false and every arithmetic
  operation on \<open>NaN\<close> gives \<open>NaN\<close>, as in Python.
\<close>

datatype pyfloat = NaN | Fin real

fun f_lt :: "pyfloat \<Rightarrow> pyfloat \<Rightarrow> bool" where
  "f_lt (Fin a) (Fin b) = (a < b)"
| "f_lt _ _ = False"

fun f_ge :: "pyfloat \<Rightarrow> pyfloat \<Rightarrow> bool" where
  "f_ge (Fin a) (Fin b) = (b \<le> a)"
| "f_ge _ _ = False"

text \<open>The only divisor in the script is the constant \<open>30.0\<close>.\<close>

fun f_div :: "pyfloat \<Rightarrow> pyfloat \<Rightarrow> pyfloat" where
  "f_div (Fin a) (Fin b) = Fin (a / b)"
| "f_div _ _ = NaN"

fun f_mul :: "pyfloat \<Rightarrow> pyfloat \<Rightarrow> pyfloat" where
  "f_mul (Fin a) (Fin b) = Fin (a * b)"
| "f_mul _ _ = NaN"

fun f_sub :: "pyfloat \<Rightarrow> pyfloat \<Rightarrow> pyfloat" where
  "f_sub (Fin a) (Fin b) = Fin (a - b)"
| "f_sub _ _ = NaN"

text \<open>An integer input of the form (\<open>current_inventory\<close>, \<open>lead_time_days\<close>) used as a float.\<close>

definition of_py_int :: "int \<Rightarrow> pyfloat" where
  "of_py_int i = Fin (of_int i)"

text \<open>\<open>Series.mean()\<close>: the arithmetic mean, \<open>NaN\<close> on an empty selection.\<close>

definition mean :: "real list \<Rightarrow> pyfloat" where
  "mean xs = (if xs = [] then NaN else Fin (sum_list xs / real (length xs)))"

section \<open>Tables\<close>

text \<open>
  A data frame is the list of its rows, in file order. Only the columns the script reads
  are kept. The cells of the two required tables are taken to be present numbers.
\<close>

record shipment =
  Origin :: string
  Destination :: string
  Carrier :: string
  ServiceLevel :: string
  Distance :: real
  ShipmentCost :: real
  OnTimeDelivery :: real

record demand_record =
  Hospital :: string
  Region :: string
  Medicine :: string
  Month :: int
  Demand :: real

text \<open>A row of \<open>carrier_lane_stats.csv\<close>, or of the table \<open>compute_lane_stats\<close> builds.\<close>

record lane_stat =
  ls_Origin :: string
  ls_Destination :: string
  ls_Carrier :: string
  ls_ServiceLevel :: string
  on_time_prob :: pyfloat
  est_cost :: pyfloat
  avg_dist :: pyfloat
  n :: nat

record baseline_row =
  b_Hospital :: string
  b_Medicine :: string
  b_Month :: int
  pred_monthly_demand :: pyfloat

section \<open>Predictors\<close>

text \<open>
  The one-row frames \<open>x_reg\<close>/\<open>x_cls\<close> and \<open>x_sc\<close> handed to the models. A loaded model
  is an opaque function of such a row; \<open>None\<close> is a model that failed to load.
\<close>

record hc_features =
  x_Hospital :: string
  x_Region :: string
  x_Medicine :: string
  x_Month :: int
  x_Inventory :: int
  x_LeadTimeDays :: int

record sc_features =
  x_Origin :: string
  x_Destination :: string
  x_Carrier :: string
  x_ServiceLevel :: string
  x_Distance :: pyfloat
  x_Weight :: int
  x_Stops :: int

record models =
  sc_on_time :: "(sc_features \<Rightarrow> pyfloat) option"
  sc_cost :: "(sc_features \<Rightarrow> pyfloat) option"
  hc_demand :: "(hc_features \<Rightarrow> pyfloat) option"
  hc_risk :: "(hc_features \<Rightarrow> pyfloat) option"

section \<open>Helpers (stats-only fallbacks)\<close>

text \<open>
  \<open>groupby(keys, as_index=False).agg(...)\<close>: one row per distinct key, keys in sorted
  order, each aggregate taken over the rows of that key.
\<close>

definition lane_key :: "shipment \<Rightarrow> string \<times> string \<times> string \<times> string" where
  "lane_key r = (Origin r, Destination r, Carrier r, ServiceLevel r)"

definition compute_lane_stats :: "shipment list \<Rightarrow> lane_stat list" where
  "compute_lane_stats sc =
     map (\<lambda>k. let g = filter (\<lambda>r. lane_key r = k) sc in
            \<lparr>ls_Origin = fst k, ls_Destination = fst (snd k),
             ls_Carrier = fst (snd (snd k)), ls_ServiceLevel = snd (snd (snd k)),
             on_time_prob = mean (map OnTimeDelivery g),
             est_cost = mean (map ShipmentCost g),
             avg_dist = mean (map Distance g),
             n = length g\<rparr>)
         (sort (remdups (map lane_key sc)))"

definition demand_key :: "demand_record \<Rightarrow> string \<times> string \<times> int" where
  "demand_key r = (Hospital r, Medicine r, Month r)"

definition baseline_demand :: "demand_record list \<Rightarrow> baseline_row list" where
  "baseline_demand hc =
     map (\<lambda>k. \<lparr>b_Hospital = fst k, b_Medicine = fst (snd k), b_Month = snd (snd k),
               pred_monthly_demand = mean (map Demand (filter (\<lambda>r. demand_key r = k) hc))\<rparr>)
         (sort (remdups (map demand_key hc)))"

section \<open>Load data/models\<close>

text \<open>
  What the script holds after loading: the two required tables, the optional lane
  statistics file and the four model slots.
\<close>

record env =
  sc_shipments :: "shipment list"
  hc_df :: "demand_record list"
  lane_stats_csv :: "lane_stat list option"
  the_models :: models

definition lane_stats :: "env \<Rightarrow> lane_stat list" where
  "lane_stats e =
     (case lane_stats_csv e of
        None \<Rightarrow> compute_lane_stats (sc_shipments e)
      | Some t \<Rightarrow> t)"

definition demand_baseline :: "env \<Rightarrow> baseline_row list" where
  "demand_baseline e = baseline_demand (hc_df e)"

text \<open>The choices the form offers.\<close>

definition hospitals :: "env \<Rightarrow> string list" where
  "hospitals e = sort (remdups (map Hospital (hc_df e)))"

definition medicines :: "env \<Rightarrow> string list" where
  "medicines e = sort (remdups (map Medicine (hc_df e)))"

definition months :: "int list" where
  "months = [1..12]"

definition carriers :: "env \<Rightarrow> string list" where
  "carriers e = sort (remdups (map Carrier (sc_shipments e)))"

section \<open>Core computations\<close>

text \<open>The region of a hospital: that of its first record, \<open>MW\<close> for an unknown hospital.\<close>

definition region_of :: "env \<Rightarrow> string \<Rightarrow> string" where
  "region_of e hospital =
     (if hospital \<in> set (map Hospital (hc_df e))
      then Region (hd (filter (\<lambda>r. Hospital r = hospital) (hc_df e)))
      else ''MW'')"

definition predict_demand_and_risk ::
  "env \<Rightarrow> string \<Rightarrow> string \<Rightarrow> int \<Rightarrow> int \<Rightarrow> int \<Rightarrow> pyfloat \<times> pyfloat \<times> pyfloat \<times> pyfloat" where
  "predict_demand_and_risk e hospital medicine month current_inventory lead_time_days =
     (let region = region_of e hospital;
          x = \<lparr>x_Hospital = hospital, x_Region = region, x_Medicine = medicine,
               x_Month = month, x_Inventory = current_inventory,
               x_LeadTimeDays = lead_time_days\<rparr>;
          demand_pred =
            (case hc_demand (the_models e) of
               Some m \<Rightarrow> m x
             | None \<Rightarrow>
                 (let row = filter (\<lambda>b. b_Hospital b = hospital \<and> b_Medicine b = medicine
                                         \<and> b_Month b = month) (demand_baseline e)
                  in if row \<noteq> [] then pred_monthly_demand (hd row)
                     else mean (map Demand (filter (\<lambda>r. Medicine r = medicine) (hc_df e)))));
          shortage_prob =
            (case hc_risk (the_models e) of
               Some m \<Rightarrow> m x
             | None \<Rightarrow>
                 (let daily = f_div demand_pred (Fin 30);
                      buffer_need = f_mul daily (of_py_int lead_time_days)
                  in if f_lt (of_py_int current_inventory) buffer_need
                     then Fin 0.8 else Fin 0.2));
          daily_need = f_div demand_pred (Fin 30);
          buffer_need = f_mul daily_need (of_py_int lead_time_days);
          inventory_gap = f_sub (of_py_int current_inventory) buffer_need
      in (demand_pred, shortage_prob, buffer_need, inventory_gap))"

text \<open>
  \<open>distance_override\<close> is \<open>None\<close> (the default) or a number; Python's test
  \<open>distance_override and distance_override > 0\<close> is false for \<open>None\<close> and for zero.
\<close>

definition estimate_lane ::
  "env \<Rightarrow> string \<Rightarrow> string \<Rightarrow> string \<Rightarrow> string \<Rightarrow> real option \<Rightarrow> int \<Rightarrow> int
     \<Rightarrow> pyfloat \<times> pyfloat \<times> pyfloat" where
  "estimate_lane e origin destination carrier service distance_override weight stops =
     (let auto_distance =
            (let lane = filter (\<lambda>r. Origin r = origin \<and> Destination r = destination)
                          (sc_shipments e)
             in if length lane \<ge> 5 then mean (map Distance lane) else Fin 800);
          distance =
            (case distance_override of
               None \<Rightarrow> auto_distance
             | Some d \<Rightarrow> if d \<noteq> 0 \<and> d > 0 then Fin d else auto_distance)
      in case (sc_on_time (the_models e), sc_cost (the_models e)) of
           (Some clf, Some reg) \<Rightarrow>
             (let x_sc = \<lparr>x_Origin = origin, x_Destination = destination,
                          x_Carrier = carrier, x_ServiceLevel = service,
                          x_Distance = distance, x_Weight = weight, x_Stops = stops\<rparr>
              in (distance, clf x_sc, reg x_sc))
         | _ \<Rightarrow>
             (let row = filter (\<lambda>s. ls_Origin s = origin \<and> ls_Destination s = destination
                                    \<and> ls_Carrier s = carrier \<and> ls_ServiceLevel s = service)
                          (lane_stats e)
              in if row = []
                 then (let lane_only = filter (\<lambda>r. Origin r = origin \<and> Destination r = destination)
                                         (sc_shipments e)
                       in (distance,
                           (if lane_only \<noteq> [] then mean (map OnTimeDelivery lane_only) else Fin 0.65),
                           (if lane_only \<noteq> [] then mean (map ShipmentCost lane_only) else Fin 300)))
                 else (distance, on_time_prob (hd row), est_cost (hd row))))"

section \<open>The submitted form\<close>

record inputs =
  in_hospital :: string
  in_medicine :: string
  in_month :: int
  in_origin :: string
  in_destination :: string
  in_carrier :: string
  in_service :: string
  in_current_inventory :: int
  in_lead_time_days :: int
  in_stops :: int
  in_weight :: int
  in_distance_input :: int

text \<open>
  The values bound when the form is submitted, up to the two notes. The pictograph
  that starts each displayed label is left out of the strings.
\<close>

record decision =
  d_demand_pred :: pyfloat
  d_shortage_prob :: pyfloat
  d_buffer_need :: pyfloat
  d_inventory_gap :: pyfloat
  d_distance :: pyfloat
  d_on_time_prob :: pyfloat
  d_cost_est :: pyfloat
  order_now :: bool
  risk_flag :: bool
  recommendation :: string
  logistics_note :: string

definition decide :: "env \<Rightarrow> inputs \<Rightarrow> decision" where
  "decide e i =
     (case predict_demand_and_risk e (in_hospital i) (in_medicine i) (in_month i)
             (in_current_inventory i) (in_lead_time_days i) of
        (demand_pred, shortage_prob, buffer_need, inventory_gap) \<Rightarrow>
     (case estimate_lane e (in_origin i) (in_destination i) (in_carrier i) (in_service i)
             (Some (of_int (in_distance_input i))) (in_weight i) (in_stops i) of
        (distance, otp, cost_est) \<Rightarrow>
     (let order = (f_ge shortage_prob (Fin 0.5) \<or> f_lt inventory_gap (Fin 0));
          risk = f_lt otp (Fin 0.7)
      in \<lparr>d_demand_pred = demand_pred, d_shortage_prob = shortage_prob,
          d_buffer_need = buffer_need, d_inventory_gap = inventory_gap,
          d_distance = distance, d_on_time_prob = otp, d_cost_est = cost_est,
          order_now = order, risk_flag = risk,
          recommendation = (if order then ''ORDER NOW'' else ''OK TO WAIT''),
          logistics_note =
            (if risk
             then ''Lane/Carrier risk is HIGH (consider expedited or different carrier)''
             else ''Lane/Carrier risk acceptable'')\<rparr>)))"

subsection \<open>Compare carriers\<close>

record comp_row =
  c_Carrier :: string
  on_time_probability :: pyfloat
  estimated_cost :: pyfloat
  c_recommendation :: string

definition carrier_row :: "env \<Rightarrow> inputs \<Rightarrow> string \<Rightarrow> string \<Rightarrow> comp_row" where
  "carrier_row e i primary c =
     (case estimate_lane e (in_origin i) (in_destination i) c (in_service i)
             (Some (of_int (in_distance_input i))) (in_weight i) (in_stops i) of
        (_, otp, ce) \<Rightarrow>
          \<lparr>c_Carrier = c, on_time_probability = otp, estimated_cost = ce,
           c_recommendation =
             (if f_ge otp (Fin 0.7) then primary else ''Consider alternate/expedite'')\<rparr>)"

text \<open>
  \<open>sort_values("on_time_probability", ascending=False)\<close>: larger values first, rows
  without a value (\<open>NaN\<close>) last. The order pandas gives to rows with equal values is
  not fixed by the script; here they keep their order.
\<close>

definition desc_key :: "comp_row \<Rightarrow> nat \<times> real" where
  "desc_key r = (case on_time_probability r of NaN \<Rightarrow> (1, 0) | Fin p \<Rightarrow> (0, - p))"

definition sort_values_desc :: "comp_row list \<Rightarrow> comp_row list" where
  "sort_values_desc rows = sort_key desc_key rows"

definition compare_carriers :: "env \<Rightarrow> inputs \<Rightarrow> string \<Rightarrow> comp_row list" where
  "compare_carriers e i primary =
     sort_values_desc (map (carrier_row e i primary) (carriers e))"

subsection \<open>The run\<close>

text \<open>
  Between the decision and the comparison the script formats the metrics;
  \<open>int(round(v))\<close> raises \<open>ValueError\<close> when \<open>v\<close> is \<open>NaN\<close>, and the comparison is
  then never built.
\<close>

datatype py_error = ValueError

definition run_recommendation :: "env \<Rightarrow> inputs \<Rightarrow> py_error + decision \<times> comp_row list" where
  "run_recommendation e i =
     (let d = decide e i
      in if d_demand_pred d = NaN \<or> d_buffer_need d = NaN \<or> d_inventory_gap d = NaN
         then Inl ValueError
         else Inr (d, compare_carriers e i (recommendation d)))"

subsection \<open>Reading the comparison\<close>

text \<open>
  What "sorted by on-time probability, descending" asks of two rows, the first above the
  second: the first value is not smaller, and a row without a value stands below every
  row with one.
\<close>

fun ranks_before :: "pyfloat \<Rightarrow> pyfloat \<Rightarrow> bool" where
  "ranks_before (Fin a) (Fin b) = (b \<le> a)"
| "ranks_before NaN (Fin b) = False"
| "ranks_before _ NaN = True"

section \<open>Example data\<close>

text \<open>
  A small data set: two demand records of GenHosp for InsulinX in June (mean 300), five
  shipments on the lane CHI-NYC and four on the lane CHI-LA.
\<close>

definition hc_example :: "demand_record list" where
  "hc_example =
     [\<lparr>Hospital = ''GenHosp'', Region = ''NE'', Medicine = ''InsulinX'', Month = 6, Demand = 280\<rparr>,
      \<lparr>Hospital = ''GenHosp'', Region = ''NE'', Medicine = ''InsulinX'', Month = 6, Demand = 320\<rparr>,
      \<lparr>Hospital = ''StMary'', Region = ''MW'', Medicine = ''InsulinX'', Month = 5, Demand = 150\<rparr>,
      \<lparr>Hospital = ''StMary'', Region = ''MW'', Medicine = ''Amoxil'', Month = 6, Demand = 90\<rparr>]"

definition sc_example :: "shipment list" where
  "sc_example =
     [\<lparr>Origin = ''CHI'', Destination = ''NYC'', Carrier = ''UPS'', ServiceLevel = ''Ground'',
       Distance = 700, ShipmentCost = 300, OnTimeDelivery = 1\<rparr>,
      \<lparr>Origin = ''CHI'', Destination = ''NYC'', Carrier = ''UPS'', ServiceLevel = ''Ground'',
       Distance = 720, ShipmentCost = 310, OnTimeDelivery = 1\<rparr>,
      \<lparr>Origin = ''CHI'', Destination = ''NYC'', Carrier = ''UPS'', ServiceLevel = ''Ground'',
       Distance = 740, ShipmentCost = 320, OnTimeDelivery = 1\<rparr>,
      \<lparr>Origin = ''CHI'', Destination = ''NYC'', Carrier = ''FedEx'', ServiceLevel = ''Ground'',
       Distance = 760, ShipmentCost = 400, OnTimeDelivery = 1\<rparr>,
      \<lparr>Origin = ''CHI'', Destination = ''NYC'', Carrier = ''FedEx'', ServiceLevel = ''Ground'',
       Distance = 780, ShipmentCost = 420, OnTimeDelivery = 0\<rparr>,
      \<lparr>Origin = ''CHI'', Destination = ''LA'', Carrier = ''DHL'', ServiceLevel = ''Express'',
       Distance = 2000, ShipmentCost = 900, OnTimeDelivery = 1\<rparr>,
      \<lparr>Origin = ''CHI'', Destination = ''LA'', Carrier = ''DHL'', ServiceLevel = ''Express'',
       Distance = 2010, ShipmentCost = 910, OnTimeDelivery = 1\<rparr>,
      \<lparr>Origin = ''CHI'', Destination = ''LA'', Carrier = ''DHL'', ServiceLevel = ''Express'',
       Distance = 2020, ShipmentCost = 920, OnTimeDelivery = 0\<rparr>,
      \<lparr>Origin = ''CHI'', Destination = ''LA'', Carrier = ''DHL'', ServiceLevel = ''Express'',
       Distance = 2030, ShipmentCost = 930, OnTimeDelivery = 1\<rparr>]"

definition no_models :: models where
  "no_models = \<lparr>sc_on_time = None, sc_cost = None, hc_demand = None, hc_risk = None\<rparr>"

definition env_stats :: env where
  "env_stats = \<lparr>sc_shipments = sc_example, hc_df = hc_example, lane_stats_csv = None,
                 the_models = no_models\<rparr>"

definition form_example :: inputs where
  "form_example =
     \<lparr>in_hospital = ''GenHosp'', in_medicine = ''InsulinX'', in_month = 6,
      in_origin = ''CHI'', in_destination = ''NYC'', in_carrier = ''UPS'',
      in_service = ''Ground'', in_current_inventory = 150, in_lead_time_days = 7,
      in_stops = 1, in_weight = 35000, in_distance_input = 0\<rparr>"

definition env_classifier :: env where
  "env_classifier = env_stats\<lparr>the_models := no_models\<lparr>hc_risk := Some (\<lambda>x. Fin 0.1)\<rparr>\<rparr>"

definition env_regressor :: env where
  "env_regressor = env_stats\<lparr>the_models := no_models\<lparr>hc_demand := Some (\<lambda>x. Fin 600)\<rparr>\<rparr>"

definition env_regressor_neg :: env where
  "env_regressor_neg = env_stats\<lparr>the_models := no_models\<lparr>hc_demand := Some (\<lambda>x. Fin (- 5))\<rparr>\<rparr>"

definition env_on_time_only :: env where
  "env_on_time_only = env_stats\<lparr>the_models := no_models\<lparr>sc_on_time := Some (\<lambda>x. Fin 0.99)\<rparr>\<rparr>"

definition env_boundary :: env where
  "env_boundary = env_stats\<lparr>lane_stats_csv :=
     Some [\<lparr>ls_Origin = ''CHI'', ls_Destination = ''NYC'', ls_Carrier = ''UPS'',
            ls_ServiceLevel = ''Ground'', on_time_prob = Fin 0.7, est_cost = Fin 310,
            avg_dist = Fin 720, n = 3\<rparr>,
           \<lparr>ls_Origin = ''CHI'', ls_Destination = ''NYC'', ls_Carrier = ''FedEx'',
            ls_ServiceLevel = ''Ground'', on_time_prob = Fin 0.69, est_cost = Fin 410,
            avg_dist = Fin 770, n = 2\<rparr>]\<rparr>"

definition env_returns :: env where
  "env_returns = env_stats\<lparr>hc_df :=
     [\<lparr>Hospital = ''GenHosp'', Region = ''NE'', Medicine = ''InsulinX'', Month = 6,
       Demand = - 10\<rparr>]\<rparr>"

definition form_low :: inputs where
  "form_low = form_example\<lparr>in_current_inventory := 50\<rparr>"

section \<open>Evaluation and lookup lemmas\<close>

lemmas example_defs =
  env_stats_def env_classifier_def env_regressor_def env_regressor_neg_def
  env_on_time_only_def env_boundary_def env_returns_def
  hc_example_def sc_example_def no_models_def form_example_def form_low_def

lemma filter_eq_distinct:
  "distinct xs \<Longrightarrow> filter (\<lambda>k. k = a) xs = (if a \<in> set xs then [a] else [])"
  by (induction xs) auto

lemma baseline_lookup:
  "filter (\<lambda>b. b_Hospital b = h \<and> b_Medicine b = m \<and> b_Month b = mo) (baseline_demand hc) =
     (if (h, m, mo) \<in> set (map demand_key hc)
      then [\<lparr>b_Hospital = h, b_Medicine = m, b_Month = mo,
             pred_monthly_demand = mean (map Demand (filter (\<lambda>r. demand_key r = (h, m, mo)) hc))\<rparr>]
      else [])"
proof -
  let ?ks = "sort (remdups (map demand_key hc))"
  have d: "distinct ?ks" by simp
  have "filter (\<lambda>b. b_Hospital b = h \<and> b_Medicine b = m \<and> b_Month b = mo) (baseline_demand hc)
        = map (\<lambda>k. \<lparr>b_Hospital = fst k, b_Medicine = fst (snd k), b_Month = snd (snd k),
               pred_monthly_demand = mean (map Demand (filter (\<lambda>r. demand_key r = k) hc))\<rparr>)
            (filter (\<lambda>k. k = (h, m, mo)) ?ks)"
    unfolding baseline_demand_def filter_map
    by (rule arg_cong[where f = "map _"], rule filter_cong) (auto simp: o_def prod_eq_iff)
  also have "filter (\<lambda>k. k = (h, m, mo)) ?ks = (if (h, m, mo) \<in> set ?ks then [(h, m, mo)] else [])"
    using d by (rule filter_eq_distinct)
  finally show ?thesis by simp
qed

lemma lane_stats_lookup:
  "filter (\<lambda>s. ls_Origin s = og \<and> ls_Destination s = ds \<and> ls_Carrier s = c \<and> ls_ServiceLevel s = sv)
      (compute_lane_stats sc) =
     (if (og, ds, c, sv) \<in> set (map lane_key sc)
      then (let g = filter (\<lambda>r. lane_key r = (og, ds, c, sv)) sc in
            [\<lparr>ls_Origin = og, ls_Destination = ds, ls_Carrier = c, ls_ServiceLevel = sv,
              on_time_prob = mean (map OnTimeDelivery g), est_cost = mean (map ShipmentCost g),
              avg_dist = mean (map Distance g), n = length g\<rparr>])
      else [])"
proof -
  let ?ks = "sort (remdups (map lane_key sc))"
  have d: "distinct ?ks" by simp
  have "filter (\<lambda>s. ls_Origin s = og \<and> ls_Destination s = ds \<and> ls_Carrier s = c \<and> ls_ServiceLevel s = sv)
      (compute_lane_stats sc)
        = map (\<lambda>k. let g = filter (\<lambda>r. lane_key r = k) sc in
            \<lparr>ls_Origin = fst k, ls_Destination = fst (snd k),
             ls_Carrier = fst (snd (snd k)), ls_ServiceLevel = snd (snd (snd k)),
             on_time_prob = mean (map OnTimeDelivery g),
             est_cost = mean (map ShipmentCost g),
             avg_dist = mean (map Distance g),
             n = length g\<rparr>)
            (filter (\<lambda>k. k = (og, ds, c, sv)) ?ks)"
    unfolding compute_lane_stats_def filter_map
    by (rule arg_cong[where f = "map _"], rule filter_cong) (auto simp: o_def Let_def prod_eq_iff)
  also have "filter (\<lambda>k. k = (og, ds, c, sv)) ?ks = (if (og, ds, c, sv) \<in> set ?ks then [(og, ds, c, sv)] else [])"
    using d by (rule filter_eq_distinct)
  finally show ?thesis by (simp add: Let_def)
qed

lemma demand_key_filter:
  "filter (\<lambda>r. demand_key r = (h, m, mo)) hc =
   filter (\<lambda>r. Hospital r = h \<and> Medicine r = m \<and> Month r = mo) hc"
  by (simp add: demand_key_def)

lemmas eval_defs =
  predict_demand_and_risk_def estimate_lane_def decide_def Let_def region_of_def
  demand_baseline_def baseline_lookup demand_key_def
  lane_stats_def lane_stats_lookup lane_key_def mean_def of_py_int_def

lemma buffer_NaN_iff: "f_mul (f_div d (Fin 30)) (of_py_int lt) = NaN \<longleftrightarrow> d = NaN"
  by (cases d) (simp_all add: of_py_int_def)

lemma gap_NaN_iff: "f_sub (of_py_int ci) (f_mul (f_div d (Fin 30)) (of_py_int lt)) = NaN \<longleftrightarrow> d = NaN"
  by (cases d) (simp_all add: of_py_int_def)

lemma lt_buffer_iff_gap:
  "f_lt (of_py_int ci) b = f_lt (f_sub (of_py_int ci) b) (Fin 0)"
  by (cases b) (simp_all add: of_py_int_def)

lemma demand_stats_branch:
  assumes "hc_demand (the_models e) = None"
  shows "fst (predict_demand_and_risk e h m mo ci lt) =
     (let exact = filter (\<lambda>r. Hospital r = h \<and> Medicine r = m \<and> Month r = mo) (hc_df e)
      in if exact \<noteq> [] then mean (map Demand exact)
         else mean (map Demand (filter (\<lambda>r. Medicine r = m) (hc_df e))))"
proof -
  have mem: "((h, m, mo) \<in> demand_key ` set (hc_df e)) =
             (filter (\<lambda>r. Hospital r = h \<and> Medicine r = m \<and> Month r = mo) (hc_df e) \<noteq> [])"
    by (auto simp: demand_key_def filter_empty_conv)
  show ?thesis
    using assms
    by (simp add: predict_demand_and_risk_def Let_def demand_baseline_def baseline_lookup
        demand_key_filter mem)
qed

lemma demand_predictor_branch:
  assumes "hc_demand (the_models e) = Some p"
  shows "fst (predict_demand_and_risk e h m mo ci lt) =
     p \<lparr>x_Hospital = h, x_Region = region_of e h, x_Medicine = m, x_Month = mo,
        x_Inventory = ci, x_LeadTimeDays = lt\<rparr>"
  using assms by (simp add: predict_demand_and_risk_def Let_def)

lemma mean_nonneg:
  assumes "xs \<noteq> []" and "\<forall>x\<in>set xs. 0 \<le> x"
  shows "f_ge (mean xs) (Fin 0)"
  using assms by (simp add: mean_def sum_list_nonneg)

lemma decide_classifier_low:
  "decide env_classifier form_low =
     \<lparr>d_demand_pred = Fin 300, d_shortage_prob = Fin 0.1,
      d_buffer_need = Fin 70, d_inventory_gap = Fin (- 20),
      d_distance = Fin 740, d_on_time_prob = Fin 1, d_cost_est = Fin 310,
      order_now = True, risk_flag = False,
      recommendation = ''ORDER NOW'',
      logistics_note = ''Lane/Carrier risk acceptable''\<rparr>"
  by (simp add: eval_defs example_defs)

lemma predict_regressor:
  "predict_demand_and_risk env_regressor ''GenHosp'' ''InsulinX'' 6 150 7 =
     (Fin 600, Fin 0.2, Fin 140, Fin 10)"
  by (simp add: eval_defs example_defs)

lemma predict_exact:
  "predict_demand_and_risk env_stats ''GenHosp'' ''InsulinX'' 6 150 7 =
     (Fin 300, Fin 0.2, Fin 70, Fin 80)"
  by (simp add: eval_defs example_defs)

lemma predict_exact_low:
  "predict_demand_and_risk env_stats ''GenHosp'' ''InsulinX'' 6 50 7 =
     (Fin 300, Fin 0.8, Fin 70, Fin (- 20))"
  by (simp add: eval_defs example_defs)

lemma predict_medicine_wide:
  "predict_demand_and_risk env_stats ''StMary'' ''InsulinX'' 6 150 7 =
     (Fin 250, Fin 0.2, Fin (175 / 3), Fin (275 / 3))"
  by (simp add: eval_defs example_defs)

section \<open>The decision rule\<close>

text \<open>
  Claim C1. The order decision is the disjunction of the two signals the demand
  estimation returns: \<open>order_now\<close> holds exactly when \<open>shortage_prob >= 0.5\<close> or
  \<open>inventory_gap < 0\<close>; in particular a negative gap orders whatever the shortage
  probability is.
\<close>

theorem order_now_is_or:
  "order_now (decide e i) =
     (f_ge (d_shortage_prob (decide e i)) (Fin 0.5) \<or> f_lt (d_inventory_gap (decide e i)) (Fin 0))
   \<and> (f_lt (d_inventory_gap (decide e i)) (Fin 0) \<longrightarrow> order_now (decide e i))
   \<and> (d_demand_pred (decide e i), d_shortage_prob (decide e i), d_buffer_need (decide e i),
      d_inventory_gap (decide e i)) =
     predict_demand_and_risk e (in_hospital i) (in_medicine i) (in_month i)
       (in_current_inventory i) (in_lead_time_days i)"
  by (simp add: decide_def Let_def split: prod.splits)

text \<open>
  With a classifier that answers 0.1 and an inventory of 50 against a buffer of 70, the
  gap alone triggers the order.
\<close>

theorem order_now_is_or_witness:
  "f_lt (d_inventory_gap (decide env_classifier form_low)) (Fin 0)
   \<and> \<not> f_ge (d_shortage_prob (decide env_classifier form_low)) (Fin 0.5)
   \<and> order_now (decide env_classifier form_low)"
  using order_now_is_or [of env_classifier form_low]
  by (simp add: decide_classifier_low)

text \<open>
  Claim C3. \<open>risk_flag\<close> holds exactly when \<open>on_time_prob < 0.7\<close>; the comparison is
  strict, so an on-time probability of exactly 0.7 does not raise the flag.
\<close>

theorem risk_flag_strict:
  "risk_flag (decide e i) = f_lt (d_on_time_prob (decide e i)) (Fin 0.7)
   \<and> (d_on_time_prob (decide e i) = Fin 0.7 \<longrightarrow> \<not> risk_flag (decide e i))
   \<and> (d_distance (decide e i), d_on_time_prob (decide e i), d_cost_est (decide e i)) =
     estimate_lane e (in_origin i) (in_destination i) (in_carrier i) (in_service i)
       (Some (of_int (in_distance_input i))) (in_weight i) (in_stops i)"
  by (auto simp add: decide_def Let_def split: prod.splits)

theorem risk_flag_strict_witness:
  "d_on_time_prob (decide env_boundary form_example) = Fin 0.7
   \<and> \<not> risk_flag (decide env_boundary form_example)
   \<and> risk_flag (decide env_boundary (form_example\<lparr>in_carrier := ''FedEx''\<rparr>))"
  using risk_flag_strict [of env_boundary form_example]
    risk_flag_strict [of env_boundary "form_example\<lparr>in_carrier := ''FedEx''\<rparr>"]
  by (simp add: eval_defs example_defs)

section \<open>Demand and shortage\<close>

text \<open>
  Claim C2. Whatever branch produced \<open>demand_pred\<close>, the returned \<open>buffer_need\<close> is
  \<open>(demand_pred / 30) * lead_time_days\<close> and the returned \<open>inventory_gap\<close> is
  \<open>current_inventory - buffer_need\<close>, both from the returned \<open>demand_pred\<close>.
\<close>

theorem buffer_and_gap_exact:
  "(case predict_demand_and_risk e h m mo ci lt of
      (demand_pred, shortage_prob, buffer_need, inventory_gap) \<Rightarrow>
        buffer_need = f_mul (f_div demand_pred (Fin 30)) (of_py_int lt)
        \<and> inventory_gap = f_sub (of_py_int ci) buffer_need)"
  by (simp add: predict_demand_and_risk_def Let_def)

text \<open>One instance for each branch: predictor, exact baseline, medicine-wide mean.\<close>

theorem buffer_and_gap_exact_witness:
  "snd (snd (predict_demand_and_risk env_regressor ''GenHosp'' ''InsulinX'' 6 150 7))
     = (f_mul (f_div (Fin 600) (Fin 30)) (of_py_int 7), f_sub (of_py_int 150) (Fin 140))
   \<and> snd (snd (predict_demand_and_risk env_stats ''GenHosp'' ''InsulinX'' 6 150 7))
     = (f_mul (f_div (Fin 300) (Fin 30)) (of_py_int 7), f_sub (of_py_int 150) (Fin 70))
   \<and> snd (snd (predict_demand_and_risk env_stats ''StMary'' ''InsulinX'' 6 150 7))
     = (f_mul (f_div (Fin 250) (Fin 30)) (of_py_int 7), f_sub (of_py_int 150) (Fin (175 / 3)))"
  using
    buffer_and_gap_exact [where e = env_regressor and h = "''GenHosp''" and m = "''InsulinX''"
      and mo = 6 and ci = 150 and lt = 7]
    buffer_and_gap_exact [where e = env_stats and h = "''GenHosp''" and m = "''InsulinX''"
      and mo = 6 and ci = 150 and lt = 7]
    buffer_and_gap_exact [where e = env_stats and h = "''StMary''" and m = "''InsulinX''"
      and mo = 6 and ci = 150 and lt = 7]
  by (simp add: predict_regressor predict_exact predict_medicine_wide)

text \<open>
  Claim C4. Demand resolution has three tiers: the output of a registered demand
  predictor on the feature row; otherwise the mean \<open>Demand\<close> of the records matching
  (hospital, medicine, month), which is what the baseline table holds for that key, when
  such records exist; otherwise the mean \<open>Demand\<close> of all records of the medicine.
\<close>

theorem demand_three_tier:
  "fst (predict_demand_and_risk e h m mo ci lt) =
     (case hc_demand (the_models e) of
        Some p \<Rightarrow>
          p \<lparr>x_Hospital = h, x_Region = region_of e h, x_Medicine = m, x_Month = mo,
             x_Inventory = ci, x_LeadTimeDays = lt\<rparr>
      | None \<Rightarrow>
          (let exact = filter (\<lambda>r. Hospital r = h \<and> Medicine r = m \<and> Month r = mo) (hc_df e)
           in if exact \<noteq> [] then mean (map Demand exact)
              else mean (map Demand (filter (\<lambda>r. Medicine r = m) (hc_df e)))))"
proof (cases "hc_demand (the_models e)")
  case None
  then show ?thesis by (simp add: demand_stats_branch)
next
  case (Some p)
  then show ?thesis by (simp add: demand_predictor_branch)
qed

theorem demand_three_tier_witness:
  "fst (predict_demand_and_risk env_regressor ''GenHosp'' ''InsulinX'' 6 150 7) = Fin 600
   \<and> fst (predict_demand_and_risk env_stats ''GenHosp'' ''InsulinX'' 6 150 7) = Fin ((280 + 320) / 2)
   \<and> fst (predict_demand_and_risk env_stats ''StMary'' ''InsulinX'' 6 150 7)
       = Fin ((280 + 320 + 150) / 3)"
  using
    demand_three_tier [where e = env_regressor and h = "''GenHosp''" and m = "''InsulinX''"
      and mo = 6 and ci = 150 and lt = 7]
    demand_three_tier [where e = env_stats and h = "''GenHosp''" and m = "''InsulinX''"
      and mo = 6 and ci = 150 and lt = 7]
    demand_three_tier [where e = env_stats and h = "''StMary''" and m = "''InsulinX''"
      and mo = 6 and ci = 150 and lt = 7]
  by (simp add: example_defs mean_def)

text \<open>
  Claim C5. Without a shortage classifier, \<open>shortage_prob\<close> is 0.8 when
  \<open>current_inventory < (demand_pred / 30) * lead_time_days\<close> and 0.2 otherwise, and
  takes no other value.
\<close>

theorem shortage_heuristic:
  assumes "hc_risk (the_models e) = None"
  shows "(case predict_demand_and_risk e h m mo ci lt of
      (demand_pred, shortage_prob, buffer_need, inventory_gap) \<Rightarrow>
        shortage_prob =
          (if f_lt (of_py_int ci) (f_mul (f_div demand_pred (Fin 30)) (of_py_int lt))
           then Fin 0.8 else Fin 0.2)
        \<and> (shortage_prob = Fin 0.8 \<or> shortage_prob = Fin 0.2))"
  using assms by (simp add: predict_demand_and_risk_def Let_def)

theorem shortage_heuristic_witness:
  "hc_risk (the_models env_stats) = None
   \<and> fst (snd (predict_demand_and_risk env_stats ''GenHosp'' ''InsulinX'' 6 150 7)) = Fin 0.2
   \<and> fst (snd (predict_demand_and_risk env_stats ''GenHosp'' ''InsulinX'' 6 50 7)) = Fin 0.8"
proof -
  have h: "hc_risk (the_models env_stats) = None"
    by (simp add: example_defs)
  show ?thesis
    using h
      shortage_heuristic [OF h, where h = "''GenHosp''" and m = "''InsulinX''"
        and mo = 6 and ci = 150 and lt = 7]
      shortage_heuristic [OF h, where h = "''GenHosp''" and m = "''InsulinX''"
        and mo = 6 and ci = 50 and lt = 7]
    by (simp add: predict_exact predict_exact_low)
qed

text \<open>
  Claim C10. Without a shortage classifier the heuristic probability reaches 0.5
  exactly when the inventory gap is negative, so \<open>order_now\<close> holds exactly when
  \<open>inventory_gap < 0\<close>.
\<close>

theorem heuristic_signal_is_gap_test:
  assumes "hc_risk (the_models e) = None"
  shows "f_ge (d_shortage_prob (decide e i)) (Fin 0.5) = f_lt (d_inventory_gap (decide e i)) (Fin 0)
     \<and> order_now (decide e i) = f_lt (d_inventory_gap (decide e i)) (Fin 0)"
proof -
  obtain dp sp bn ig where p:
    "predict_demand_and_risk e (in_hospital i) (in_medicine i) (in_month i)
       (in_current_inventory i) (in_lead_time_days i) = (dp, sp, bn, ig)"
    by (cases "predict_demand_and_risk e (in_hospital i) (in_medicine i) (in_month i)
       (in_current_inventory i) (in_lead_time_days i)") auto
  from p assms
  have sp: "sp = (if f_lt (of_py_int (in_current_inventory i)) bn then Fin 0.8 else Fin 0.2)"
    and ig: "ig = f_sub (of_py_int (in_current_inventory i)) bn"
    by (auto simp add: predict_demand_and_risk_def Let_def)
  have "f_ge sp (Fin 0.5) = f_lt ig (Fin 0)"
    unfolding sp ig using lt_buffer_iff_gap [of "in_current_inventory i" bn] by simp
  then show ?thesis
    using p by (auto simp add: decide_def Let_def split: prod.splits)
qed

theorem heuristic_signal_is_gap_test_witness:
  "hc_risk (the_models env_stats) = None
   \<and> order_now (decide env_stats form_low)
   \<and> f_lt (d_inventory_gap (decide env_stats form_low)) (Fin 0)
   \<and> \<not> order_now (decide env_stats form_example)
   \<and> \<not> f_lt (d_inventory_gap (decide env_stats form_example)) (Fin 0)"
proof -
  have h: "hc_risk (the_models env_stats) = None"
    by (simp add: example_defs)
  have low: "d_inventory_gap (decide env_stats form_low) = Fin (- 20)"
    by (simp add: decide_def Let_def predict_exact_low form_low_def form_example_def
        split: prod.splits)
  have high: "d_inventory_gap (decide env_stats form_example) = Fin 80"
    by (simp add: decide_def Let_def predict_exact form_example_def split: prod.splits)
  show ?thesis
    using h heuristic_signal_is_gap_test [OF h, of form_low]
      heuristic_signal_is_gap_test [OF h, of form_example]
    by (simp add: low high)
qed

section \<open>Lane estimation\<close>

text \<open>
  Claim C6. The distance is a positive \<open>distance_override\<close> as given; otherwise (no
  override, zero, or a negative number) it is the mean \<open>Distance\<close> of the shipments on
  (origin, destination) when at least five match, and 800 when fewer than five match.
\<close>

theorem distance_resolution:
  "fst (estimate_lane e og ds c sv ov w st) =
     (let lane = filter (\<lambda>r. Origin r = og \<and> Destination r = ds) (sc_shipments e);
          auto_distance =
            (if 5 \<le> length lane then Fin (sum_list (map Distance lane) / real (length lane))
             else Fin 800)
      in case ov of
           Some d \<Rightarrow> if 0 < d then Fin d else auto_distance
         | None \<Rightarrow> auto_distance)"
  by (auto simp add: estimate_lane_def Let_def mean_def split: option.splits prod.splits)

theorem distance_resolution_witness:
  "fst (estimate_lane env_stats ''CHI'' ''NYC'' ''UPS'' ''Ground'' (Some 123.5) 35000 1) = Fin 123.5
   \<and> length (filter (\<lambda>r. Origin r = ''CHI'' \<and> Destination r = ''LA'') (sc_shipments env_stats)) = 4
   \<and> fst (estimate_lane env_stats ''CHI'' ''LA'' ''DHL'' ''Express'' (Some 0) 35000 1) = Fin 800
   \<and> length (filter (\<lambda>r. Origin r = ''CHI'' \<and> Destination r = ''NYC'') (sc_shipments env_stats)) = 5
   \<and> fst (estimate_lane env_stats ''CHI'' ''NYC'' ''UPS'' ''Ground'' (Some 0) 35000 1) = Fin 740
   \<and> fst (estimate_lane env_stats ''CHI'' ''NYC'' ''UPS'' ''Ground'' None 35000 1) = Fin 740"
  using
    distance_resolution [where e = env_stats and og = "''CHI''" and ds = "''NYC''"
      and c = "''UPS''" and sv = "''Ground''" and ov = "Some 123.5" and w = 35000 and st = 1]
    distance_resolution [where e = env_stats and og = "''CHI''" and ds = "''LA''"
      and c = "''DHL''" and sv = "''Express''" and ov = "Some 0" and w = 35000 and st = 1]
    distance_resolution [where e = env_stats and og = "''CHI''" and ds = "''NYC''"
      and c = "''UPS''" and sv = "''Ground''" and ov = "Some 0" and w = 35000 and st = 1]
    distance_resolution [where e = env_stats and og = "''CHI''" and ds = "''NYC''"
      and c = "''UPS''" and sv = "''Ground''" and ov = None and w = 35000 and st = 1]
  by (simp add: example_defs)

text \<open>
  Claim C7. Unless both lane models are registered, a lookup that finds no lane
  statistic for (origin, destination, carrier, service) gives the mean
  \<open>OnTimeDelivery\<close> and mean \<open>ShipmentCost\<close> of the shipments on (origin, destination),
  and (0.65, 300) when no shipment is on that lane.
\<close>

theorem lane_statistic_miss:
  assumes "sc_on_time (the_models e) = None \<or> sc_cost (the_models e) = None"
    and "filter (\<lambda>s. ls_Origin s = og \<and> ls_Destination s = ds \<and> ls_Carrier s = c
                     \<and> ls_ServiceLevel s = sv) (lane_stats e) = []"
  shows "snd (estimate_lane e og ds c sv ov w st) =
     (let lane_only = filter (\<lambda>r. Origin r = og \<and> Destination r = ds) (sc_shipments e)
      in if lane_only \<noteq> []
         then (mean (map OnTimeDelivery lane_only), mean (map ShipmentCost lane_only))
         else (Fin 0.65, Fin 300))"
  using assms
  by (auto simp add: estimate_lane_def Let_def split: option.splits prod.splits)

lemma on_time_only_models:
  "sc_on_time (the_models env_on_time_only) \<noteq> None \<and> sc_cost (the_models env_on_time_only) = None"
  by (simp add: example_defs)

lemma miss_dhl:
  "filter (\<lambda>s. ls_Origin s = ''CHI'' \<and> ls_Destination s = ''NYC'' \<and> ls_Carrier s = ''DHL''
                 \<and> ls_ServiceLevel s = ''Ground'') (lane_stats env_on_time_only) = []"
  by (simp add: lane_stats_def lane_stats_lookup lane_key_def example_defs)

lemma miss_reverse:
  "filter (\<lambda>s. ls_Origin s = ''NYC'' \<and> ls_Destination s = ''CHI'' \<and> ls_Carrier s = ''UPS''
                 \<and> ls_ServiceLevel s = ''Ground'') (lane_stats env_on_time_only) = []"
  by (simp add: lane_stats_def lane_stats_lookup lane_key_def example_defs)

theorem lane_statistic_miss_witness:
  "sc_on_time (the_models env_on_time_only) \<noteq> None
   \<and> sc_cost (the_models env_on_time_only) = None
   \<and> snd (estimate_lane env_on_time_only ''CHI'' ''NYC'' ''DHL'' ''Ground'' (Some 0) 35000 1)
       = (Fin (4 / 5), Fin 350)
   \<and> snd (estimate_lane env_on_time_only ''NYC'' ''CHI'' ''UPS'' ''Ground'' (Some 0) 35000 1)
       = (Fin 0.65, Fin 300)"
proof -
  have m: "sc_on_time (the_models env_on_time_only) = None \<or> sc_cost (the_models env_on_time_only) = None"
    using on_time_only_models by simp
  show ?thesis
    using on_time_only_models
      lane_statistic_miss [OF m miss_dhl, where ov = "Some 0" and w = 35000 and st = 1]
      lane_statistic_miss [OF m miss_reverse, where ov = "Some 0" and w = 35000 and st = 1]
    by (simp add: example_defs mean_def)
qed

section \<open>Bounds on the demand estimation\<close>

text \<open>
  Claim C8 says that for every hospital, medicine and month offered by the form the
  estimation returns \<open>demand_pred >= 0\<close> and \<open>shortage_prob\<close> in [0, 1], in every
  branch. The script passes a predictor's output and the recorded demands through
  unchanged: a regressor that answers -5, or a record with a demand of -10, gives a
  negative \<open>demand_pred\<close> for inputs the form offers.
\<close>

theorem demand_bound_counterexample:
  "''GenHosp'' \<in> set (hospitals env_regressor_neg)
   \<and> ''InsulinX'' \<in> set (medicines env_regressor_neg)
   \<and> 6 \<in> set months
   \<and> fst (predict_demand_and_risk env_regressor_neg ''GenHosp'' ''InsulinX'' 6 150 7) = Fin (- 5)
   \<and> \<not> f_ge (fst (predict_demand_and_risk env_regressor_neg ''GenHosp'' ''InsulinX'' 6 150 7)) (Fin 0)
   \<and> ''GenHosp'' \<in> set (hospitals env_returns)
   \<and> ''InsulinX'' \<in> set (medicines env_returns)
   \<and> hc_demand (the_models env_returns) = None
   \<and> fst (predict_demand_and_risk env_returns ''GenHosp'' ''InsulinX'' 6 150 7) = Fin (- 10)
   \<and> \<not> f_ge (fst (predict_demand_and_risk env_returns ''GenHosp'' ''InsulinX'' 6 150 7)) (Fin 0)"
  by (simp add: hospitals_def medicines_def months_def demand_predictor_branch
      demand_stats_branch mean_def example_defs)

text \<open>
  Claim C8, amended. \<open>demand_pred >= 0\<close> and \<open>shortage_prob\<close> in [0, 1] hold when
  the demand predictor, if registered, answers a value \<open>>= 0\<close> on the query (with none
  registered: the medicine occurs in the demand records and no recorded demand is
  negative), and the shortage classifier, if registered, answers a value in [0, 1] on
  the query.
\<close>

theorem demand_and_shortage_bounds:
  assumes "case hc_demand (the_models e) of
             Some p \<Rightarrow> f_ge (p \<lparr>x_Hospital = h, x_Region = region_of e h, x_Medicine = m,
                                x_Month = mo, x_Inventory = ci, x_LeadTimeDays = lt\<rparr>) (Fin 0)
           | None \<Rightarrow> m \<in> set (medicines e) \<and> (\<forall>r\<in>set (hc_df e). 0 \<le> Demand r)"
    and "case hc_risk (the_models e) of
             Some q \<Rightarrow> f_ge (q \<lparr>x_Hospital = h, x_Region = region_of e h, x_Medicine = m,
                                x_Month = mo, x_Inventory = ci, x_LeadTimeDays = lt\<rparr>) (Fin 0)
                        \<and> f_ge (Fin 1) (q \<lparr>x_Hospital = h, x_Region = region_of e h,
                                x_Medicine = m, x_Month = mo, x_Inventory = ci,
                                x_LeadTimeDays = lt\<rparr>)
           | None \<Rightarrow> True"
  shows "(case predict_demand_and_risk e h m mo ci lt of
      (demand_pred, shortage_prob, buffer_need, inventory_gap) \<Rightarrow>
        f_ge demand_pred (Fin 0) \<and> f_ge shortage_prob (Fin 0) \<and> f_ge (Fin 1) shortage_prob)"
proof -
  have d: "f_ge (fst (predict_demand_and_risk e h m mo ci lt)) (Fin 0)"
  proof (cases "hc_demand (the_models e)")
    case (Some p)
    with assms(1) show ?thesis by (simp add: demand_predictor_branch)
  next
    case None
    with assms(1) have med: "m \<in> set (medicines e)" and nn: "\<forall>r\<in>set (hc_df e). 0 \<le> Demand r"
      by simp_all
    let ?exact = "filter (\<lambda>r. Hospital r = h \<and> Medicine r = m \<and> Month r = mo) (hc_df e)"
    let ?wide = "filter (\<lambda>r. Medicine r = m) (hc_df e)"
    from med have w: "?wide \<noteq> []"
      by (auto simp add: medicines_def filter_empty_conv)
    have "f_ge (mean (map Demand ?wide)) (Fin 0)"
      using w nn by (intro mean_nonneg) auto
    moreover have "?exact \<noteq> [] \<Longrightarrow> f_ge (mean (map Demand ?exact)) (Fin 0)"
      using nn by (intro mean_nonneg) auto
    ultimately show ?thesis
      using None by (simp add: demand_stats_branch Let_def)
  qed
  have s: "f_ge (fst (snd (predict_demand_and_risk e h m mo ci lt))) (Fin 0)
         \<and> f_ge (Fin 1) (fst (snd (predict_demand_and_risk e h m mo ci lt)))"
    using assms(2)
    by (cases "hc_risk (the_models e)") (simp_all add: predict_demand_and_risk_def Let_def)
  from d s show ?thesis by (simp add: split_beta)
qed

theorem demand_and_shortage_bounds_witness:
  "''InsulinX'' \<in> set (medicines env_stats)
   \<and> hc_demand (the_models env_stats) = None \<and> hc_risk (the_models env_stats) = None
   \<and> list_all (\<lambda>r. 0 \<le> Demand r) (hc_df env_stats)
   \<and> predict_demand_and_risk env_stats ''GenHosp'' ''InsulinX'' 6 150 7
       = (Fin 300, Fin 0.2, Fin 70, Fin 80)
   \<and> f_ge (Fin 300) (Fin 0) \<and> f_ge (Fin 0.2) (Fin 0) \<and> f_ge (Fin 1) (Fin 0.2)"
proof -
  have a: "case hc_demand (the_models env_stats) of
             Some p \<Rightarrow> f_ge (p \<lparr>x_Hospital = ''GenHosp'', x_Region = region_of env_stats ''GenHosp'',
                                x_Medicine = ''InsulinX'', x_Month = 6, x_Inventory = 150,
                                x_LeadTimeDays = 7\<rparr>) (Fin 0)
           | None \<Rightarrow> ''InsulinX'' \<in> set (medicines env_stats)
                      \<and> (\<forall>r\<in>set (hc_df env_stats). 0 \<le> Demand r)"
    by (simp add: medicines_def example_defs)
  have b: "case hc_risk (the_models env_stats) of
             Some q \<Rightarrow> f_ge (q \<lparr>x_Hospital = ''GenHosp'', x_Region = region_of env_stats ''GenHosp'',
                                x_Medicine = ''InsulinX'', x_Month = 6, x_Inventory = 150,
                                x_LeadTimeDays = 7\<rparr>) (Fin 0)
                        \<and> f_ge (Fin 1) (q \<lparr>x_Hospital = ''GenHosp'',
                                x_Region = region_of env_stats ''GenHosp'',
                                x_Medicine = ''InsulinX'', x_Month = 6, x_Inventory = 150,
                                x_LeadTimeDays = 7\<rparr>)
           | None \<Rightarrow> True"
    by (simp add: example_defs)
  have c: "''InsulinX'' \<in> set (medicines env_stats)
     \<and> hc_demand (the_models env_stats) = None \<and> hc_risk (the_models env_stats) = None
     \<and> list_all (\<lambda>r. 0 \<le> Demand r) (hc_df env_stats)"
    by (simp add: medicines_def example_defs)
  show ?thesis
    using demand_and_shortage_bounds [OF a b] c
    by (simp add: predict_exact)
qed

section \<open>Carrier comparison\<close>

lemma desc_key_ranks:
  "desc_key a \<le> desc_key b \<Longrightarrow> ranks_before (on_time_probability a) (on_time_probability b)"
  by (cases "on_time_probability a"; cases "on_time_probability b") (simp_all add: desc_key_def)

lemma sort_values_desc_sorted:
  "sorted_wrt (\<lambda>a b. ranks_before (on_time_probability a) (on_time_probability b))
     (sort_values_desc rows)"
proof -
  have "sorted (map desc_key (sort_key desc_key rows))"
    by (rule sorted_sort_key)
  then have "sorted_wrt (\<lambda>a b. desc_key a \<le> desc_key b) (sort_key desc_key rows)"
    by (simp add: sorted_map)
  then show ?thesis
    unfolding sort_values_desc_def
    by (rule sorted_wrt_mono_rel [rotated]) (simp add: desc_key_ranks)
qed

lemma carrier_row_Carrier: "c_Carrier (carrier_row e i primary c) = c"
  by (simp add: carrier_row_def split: prod.splits)

lemma carrier_row_fields:
  "(on_time_probability (carrier_row e i primary c), estimated_cost (carrier_row e i primary c)) =
     snd (estimate_lane e (in_origin i) (in_destination i) c (in_service i)
            (Some (of_int (in_distance_input i))) (in_weight i) (in_stops i))
   \<and> c_recommendation (carrier_row e i primary c) =
       (if f_ge (on_time_probability (carrier_row e i primary c)) (Fin 0.7) then primary
        else ''Consider alternate/expedite'')"
  by (simp add: carrier_row_def split: prod.splits)

lemma carriers_distinct: "distinct (carriers e)"
  by (simp add: carriers_def)

lemma carriers_count: "length (carriers e) = card (Carrier ` set (sc_shipments e))"
  by (simp add: carriers_def length_remdups_card_conv)

lemma sort_key_names:
  "set (map f (sort_key k xs)) = set (map f xs)
   \<and> distinct (map f (sort_key k xs)) = distinct (map f xs)"
  by (simp only: set_map set_sort distinct_map distinct_sort)

lemma compare_carriers_names:
  "set (map c_Carrier (compare_carriers e i primary)) = set (carriers e)
   \<and> distinct (map c_Carrier (compare_carriers e i primary))"
proof -
  let ?rows = "map (carrier_row e i primary) (carriers e)"
  have names: "map c_Carrier ?rows = carriers e"
    by (simp add: o_def carrier_row_Carrier)
  show ?thesis
    unfolding compare_carriers_def sort_values_desc_def
    using sort_key_names [of c_Carrier desc_key ?rows] carriers_distinct [of e]
    unfolding names by simp
qed

lemma run_returns:
  assumes "d_demand_pred (decide e i) \<noteq> NaN"
  shows "run_recommendation e i = Inr (decide e i, compare_carriers e i (recommendation (decide e i)))"
proof -
  obtain dp sp bn ig where p:
    "predict_demand_and_risk e (in_hospital i) (in_medicine i) (in_month i)
       (in_current_inventory i) (in_lead_time_days i) = (dp, sp, bn, ig)"
    by (cases "predict_demand_and_risk e (in_hospital i) (in_medicine i) (in_month i)
       (in_current_inventory i) (in_lead_time_days i)") auto
  then have bn: "bn = f_mul (f_div dp (Fin 30)) (of_py_int (in_lead_time_days i))"
    and ig: "ig = f_sub (of_py_int (in_current_inventory i)) bn"
    by (auto simp add: predict_demand_and_risk_def Let_def)
  have sel: "d_demand_pred (decide e i) = dp" "d_buffer_need (decide e i) = bn"
    "d_inventory_gap (decide e i) = ig"
    using p by (simp_all add: decide_def Let_def split: prod.splits)
  from assms sel have "dp \<noteq> NaN" by simp
  then have "bn \<noteq> NaN" "ig \<noteq> NaN"
    unfolding ig bn by (simp_all add: buffer_NaN_iff gap_NaN_iff)
  with \<open>dp \<noteq> NaN\<close> show ?thesis
    by (simp add: run_recommendation_def Let_def sel)
qed

text \<open>
  Claim C9. When the metrics can be displayed, the run builds the comparison from one
  lane estimation per known carrier, all other arguments as submitted: the table has
  one row per known carrier, ordered by on-time probability, larger first, and each row
  carries the primary recommendation when its own on-time probability is at least 0.7
  and the alternate-carrier label otherwise.
\<close>

theorem carrier_comparison:
  assumes "d_demand_pred (decide e i) \<noteq> NaN"
  shows "run_recommendation e i =
           Inr (decide e i, compare_carriers e i (recommendation (decide e i)))
     \<and> (let comp = compare_carriers e i (recommendation (decide e i)) in
          length comp = length (carriers e)
        \<and> length comp = card (Carrier ` set (sc_shipments e))
        \<and> set (map c_Carrier comp) = set (carriers e)
        \<and> distinct (map c_Carrier comp)
        \<and> sorted_wrt (\<lambda>a b. ranks_before (on_time_probability a) (on_time_probability b)) comp
        \<and> (\<forall>r\<in>set comp.
              (on_time_probability r, estimated_cost r) =
                snd (estimate_lane e (in_origin i) (in_destination i) (c_Carrier r) (in_service i)
                      (Some (of_int (in_distance_input i))) (in_weight i) (in_stops i))
            \<and> c_recommendation r =
                (if f_ge (on_time_probability r) (Fin 0.7) then recommendation (decide e i)
                 else ''Consider alternate/expedite'')))"
proof -
  let ?primary = "recommendation (decide e i)"
  let ?comp = "compare_carriers e i ?primary"
  have len: "length ?comp = length (carriers e)"
    by (simp add: compare_carriers_def sort_values_desc_def)
  have rows: "\<forall>r\<in>set ?comp.
              (on_time_probability r, estimated_cost r) =
                snd (estimate_lane e (in_origin i) (in_destination i) (c_Carrier r) (in_service i)
                      (Some (of_int (in_distance_input i))) (in_weight i) (in_stops i))
            \<and> c_recommendation r =
                (if f_ge (on_time_probability r) (Fin 0.7) then ?primary
                 else ''Consider alternate/expedite'')"
  proof
    fix r assume "r \<in> set ?comp"
    then obtain c where r: "r = carrier_row e i ?primary c"
      by (auto simp add: compare_carriers_def sort_values_desc_def)
    show "(on_time_probability r, estimated_cost r) =
                snd (estimate_lane e (in_origin i) (in_destination i) (c_Carrier r) (in_service i)
                      (Some (of_int (in_distance_input i))) (in_weight i) (in_stops i))
            \<and> c_recommendation r =
                (if f_ge (on_time_probability r) (Fin 0.7) then ?primary
                 else ''Consider alternate/expedite'')"
      unfolding r carrier_row_Carrier by (rule carrier_row_fields)
  qed
  have srt: "sorted_wrt (\<lambda>a b. ranks_before (on_time_probability a) (on_time_probability b)) ?comp"
    unfolding compare_carriers_def by (rule sort_values_desc_sorted)
  from run_returns [OF assms] len carriers_count [of e] compare_carriers_names [of e i ?primary]
    srt rows
  show ?thesis unfolding Let_def by simp
qed

lemma estimate_dhl:
  "estimate_lane env_stats ''CHI'' ''NYC'' ''DHL'' ''Ground'' (Some 0) 35000 1 =
     (Fin 740, Fin (4 / 5), Fin 350)"
  by (simp add: eval_defs example_defs)

lemma estimate_fedex:
  "estimate_lane env_stats ''CHI'' ''NYC'' ''FedEx'' ''Ground'' (Some 0) 35000 1 =
     (Fin 740, Fin (1 / 2), Fin 410)"
  by (simp add: eval_defs example_defs)

lemma estimate_ups:
  "estimate_lane env_stats ''CHI'' ''NYC'' ''UPS'' ''Ground'' (Some 0) 35000 1 =
     (Fin 740, Fin 1, Fin 310)"
  by (simp add: eval_defs example_defs)

lemma carriers_example: "carriers env_stats = [''DHL'', ''FedEx'', ''UPS'']"
  by (simp add: carriers_def example_defs)

lemma decide_example:
  "decide env_stats form_example =
     \<lparr>d_demand_pred = Fin 300, d_shortage_prob = Fin 0.2,
      d_buffer_need = Fin 70, d_inventory_gap = Fin 80,
      d_distance = Fin 740, d_on_time_prob = Fin 1, d_cost_est = Fin 310,
      order_now = False, risk_flag = False,
      recommendation = ''OK TO WAIT'',
      logistics_note = ''Lane/Carrier risk acceptable''\<rparr>"
  by (simp add: decide_def Let_def predict_exact estimate_ups form_example_def)

lemma compare_example:
  "compare_carriers env_stats form_example ''OK TO WAIT'' =
     [\<lparr>c_Carrier = ''UPS'', on_time_probability = Fin 1, estimated_cost = Fin 310,
       c_recommendation = ''OK TO WAIT''\<rparr>,
      \<lparr>c_Carrier = ''DHL'', on_time_probability = Fin (4 / 5), estimated_cost = Fin 350,
       c_recommendation = ''OK TO WAIT''\<rparr>,
      \<lparr>c_Carrier = ''FedEx'', on_time_probability = Fin (1 / 2), estimated_cost = Fin 410,
       c_recommendation = ''Consider alternate/expedite''\<rparr>]"
  by (simp add: compare_carriers_def carriers_example carrier_row_def form_example_def
      estimate_dhl estimate_fedex estimate_ups sort_values_desc_def desc_key_def)

theorem carrier_comparison_witness:
  "d_demand_pred (decide env_stats form_example) \<noteq> NaN
   \<and> length (carriers env_stats) = 3
   \<and> run_recommendation env_stats form_example =
       Inr (decide env_stats form_example,
         [\<lparr>c_Carrier = ''UPS'', on_time_probability = Fin 1, estimated_cost = Fin 310,
           c_recommendation = ''OK TO WAIT''\<rparr>,
          \<lparr>c_Carrier = ''DHL'', on_time_probability = Fin (4 / 5), estimated_cost = Fin 350,
           c_recommendation = ''OK TO WAIT''\<rparr>,
          \<lparr>c_Carrier = ''FedEx'', on_time_probability = Fin (1 / 2), estimated_cost = Fin 410,
           c_recommendation = ''Consider alternate/expedite''\<rparr>])"
proof -
  have h: "d_demand_pred (decide env_stats form_example) \<noteq> NaN"
    by (simp add: decide_example)
  have r: "recommendation (decide env_stats form_example) = ''OK TO WAIT''"
    by (simp add: decide_example)
  show ?thesis
    using h carrier_comparison [OF h]
    by (simp add: r compare_example carriers_example Let_def)
qed

end
